theory Spec2Isabelle
  imports Complex_Main "HOL-Library.Log_Nat"
begin

section \<open>The financial literacy simulation engine\<close>

text \<open>
  A shallow embedding of the class \<open>FinancialSimulation\<close> of
  \<^verbatim>\<open>src/financial-simulation.js\<close>. The engine object becomes a record that every
  method takes and returns; a method that can throw returns a sum whose left side is
  the exception. Every throw of the engine happens before the method has written
  anything, so the engine after a throw is the engine before the call.
\<close>

subsection \<open>Numbers\<close>

text \<open>
  A JavaScript number is a double: a binary floating-point number with a significand of 53
  bits. The model keeps the real number that a finite double stands for, and rounds the
  exact result of every operation to the nearest double, a tie going to the double whose
  significand is even.

  \<open>exponent x\<close> is the binary exponent \<open>e\<close> of \<open>x\<close>, for which \<open>|x|\<close> is at least
  \<open>2 ^ e\<close> and below \<open>2 ^ (e + 1)\<close>. The doubles in that range are \<open>2 ^ (e - 52)\<close>
  apart, and those below \<open>2 ^ (- 1022)\<close>, the subnormal numbers, are \<open>2 ^ (- 1074)\<close>
  apart. \<open>fl x\<close> is the multiple of that distance nearest to \<open>x\<close>. A numeric literal of
  the source with a decimal point, such as \<open>0.05\<close>, denotes the double \<open>fl 0.05\<close>; an
  integer of magnitude up to \<open>2 ^ 53\<close> is a double itself.
\<close>

definition exponent :: "real \<Rightarrow> int" where
  "exponent x =
     (if 1 \<le> \<bar>x\<bar> then bitlen \<lfloor>\<bar>x\<bar>\<rfloor> - 1 else - bitlen (\<lceil>1 / \<bar>x\<bar>\<rceil> - 1))"

definition roundTiesToEven :: "real \<Rightarrow> int" where
  "roundTiesToEven r =
     (let f = \<lfloor>r\<rfloor>; d = r - of_int f
      in if d < 1 / 2 then f else if 1 / 2 < d then f + 1 else if even f then f else f + 1)"

definition fl :: "real \<Rightarrow> real" where
  "fl x =
     (let u = 2 powi (max (exponent x) (- 1022) - 52)
      in of_int (roundTiesToEven (x / u)) * u)"

text \<open>
  A number is a finite double, one of the two infinities or \<open>NaN\<close>; a numeric field of the
  engine can also hold \<open>undefined\<close>. The two zeros of the doubles are one value here: the
  engine never divides by a number that it has computed, and its comparisons do not tell
  them apart. A rounded result of magnitude \<open>2 ^ 1024\<close> or more is an infinity.
  Arithmetic on \<open>undefined\<close> converts it to \<open>NaN\<close>, arithmetic on \<open>NaN\<close> gives
  \<open>NaN\<close>, and every comparison with either is false.
\<close>

datatype jsnum = Num real | PosInfinity | NegInfinity | NaN | Undefined

definition box :: "real \<Rightarrow> jsnum" where
  "box r =
     (if 2 ^ 1024 \<le> r then PosInfinity else if r \<le> - (2 ^ 1024) then NegInfinity else Num r)"

definition signedInfinity :: "real \<Rightarrow> jsnum" where
  \<comment> \<open>an infinity times a finite number of the given sign\<close>
  "signedInfinity x = (if 0 < x then PosInfinity else if x < 0 then NegInfinity else NaN)"

fun js_add :: "jsnum \<Rightarrow> jsnum \<Rightarrow> jsnum" where
  "js_add (Num x) (Num y) = box (fl (x + y))"
| "js_add (Num x) PosInfinity = PosInfinity"
| "js_add (Num x) NegInfinity = NegInfinity"
| "js_add PosInfinity (Num y) = PosInfinity"
| "js_add NegInfinity (Num y) = NegInfinity"
| "js_add PosInfinity PosInfinity = PosInfinity"
| "js_add NegInfinity NegInfinity = NegInfinity"
| "js_add _ _ = NaN"

fun js_sub :: "jsnum \<Rightarrow> jsnum \<Rightarrow> jsnum" where
  "js_sub (Num x) (Num y) = box (fl (x - y))"
| "js_sub (Num x) PosInfinity = NegInfinity"
| "js_sub (Num x) NegInfinity = PosInfinity"
| "js_sub PosInfinity (Num y) = PosInfinity"
| "js_sub NegInfinity (Num y) = NegInfinity"
| "js_sub PosInfinity NegInfinity = PosInfinity"
| "js_sub NegInfinity PosInfinity = NegInfinity"
| "js_sub _ _ = NaN"

fun js_mul :: "jsnum \<Rightarrow> jsnum \<Rightarrow> jsnum" where
  "js_mul (Num x) (Num y) = box (fl (x * y))"
| "js_mul (Num x) PosInfinity = signedInfinity x"
| "js_mul (Num x) NegInfinity = signedInfinity (- x)"
| "js_mul PosInfinity (Num y) = signedInfinity y"
| "js_mul NegInfinity (Num y) = signedInfinity (- y)"
| "js_mul PosInfinity PosInfinity = PosInfinity"
| "js_mul NegInfinity NegInfinity = PosInfinity"
| "js_mul PosInfinity NegInfinity = NegInfinity"
| "js_mul NegInfinity PosInfinity = NegInfinity"
| "js_mul _ _ = NaN"

fun js_div :: "jsnum \<Rightarrow> real \<Rightarrow> jsnum" where
  \<comment> \<open>division by a non-zero constant, the only division of the source (\<open>/ 12\<close>)\<close>
  "js_div (Num x) d = box (fl (x / d))"
| "js_div PosInfinity d = signedInfinity d"
| "js_div NegInfinity d = signedInfinity (- d)"
| "js_div _ d = NaN"

fun js_neg :: "jsnum \<Rightarrow> jsnum" where
  "js_neg (Num x) = Num (- x)"
| "js_neg PosInfinity = NegInfinity"
| "js_neg NegInfinity = PosInfinity"
| "js_neg _ = NaN"

fun js_lt :: "jsnum \<Rightarrow> jsnum \<Rightarrow> bool" where
  "js_lt (Num x) (Num y) = (x < y)"
| "js_lt (Num x) PosInfinity = True"
| "js_lt NegInfinity (Num y) = True"
| "js_lt NegInfinity PosInfinity = True"
| "js_lt _ _ = False"

fun js_gt :: "jsnum \<Rightarrow> jsnum \<Rightarrow> bool" where
  "js_gt (Num x) (Num y) = (x > y)"
| "js_gt PosInfinity (Num y) = True"
| "js_gt (Num x) NegInfinity = True"
| "js_gt PosInfinity NegInfinity = True"
| "js_gt _ _ = False"

fun js_ge :: "jsnum \<Rightarrow> jsnum \<Rightarrow> bool" where
  "js_ge (Num x) (Num y) = (x \<ge> y)"
| "js_ge PosInfinity (Num y) = True"
| "js_ge (Num x) NegInfinity = True"
| "js_ge PosInfinity NegInfinity = True"
| "js_ge PosInfinity PosInfinity = True"
| "js_ge NegInfinity NegInfinity = True"
| "js_ge _ _ = False"

fun Math_round :: "jsnum \<Rightarrow> jsnum" where
  \<comment> \<open>\<open>Math.round\<close> gives the nearest integer, a half going towards plus infinity; for a
      double that integer is a double\<close>
  "Math_round (Num x) = Num (of_int \<lfloor>x + 1 / 2\<rfloor>)"
| "Math_round PosInfinity = PosInfinity"
| "Math_round NegInfinity = NegInfinity"
| "Math_round _ = NaN"

fun Math_abs :: "jsnum \<Rightarrow> jsnum" where
  "Math_abs (Num x) = Num \<bar>x\<bar>"
| "Math_abs PosInfinity = PosInfinity"
| "Math_abs NegInfinity = PosInfinity"
| "Math_abs _ = NaN"

text \<open>
  \<open>x++\<close> on a number with an integer value, as the month, the year and the months worked
  are: the double nearest to \<open>x + 1\<close>, which is an integer again.
\<close>

definition increment :: "int \<Rightarrow> int" where
  "increment n = \<lfloor>fl (of_int n + 1)\<rfloor>"

subsection \<open>The random source\<close>

text \<open>
  \<open>Math.random()\<close> is a global source of draws, doubles from 0 up to but not including 1.
  It is modelled as the infinite sequence of the draws still to come; one call returns the
  first and leaves the rest. The model lets a draw be any real number.
\<close>

type_synonym rng = "nat \<Rightarrow> real"

definition Math_random :: "rng \<Rightarrow> real \<times> rng" where
  "Math_random g = (g 0, \<lambda>n. g (Suc n))"

subsection \<open>Objects and property access\<close>

text \<open>
  The catalogs, the skills and the expenses are plain objects: ordered lists of own
  properties whose prototype is \<open>Object.prototype\<close>. Reading \<open>obj[k]\<close> finds an own
  property first and a property of the prototype next; only then is the result
  \<open>undefined\<close>. \<open>hasOwnProperty\<close> and \<open>Object.entries\<close> see own properties only.
\<close>

datatype 'a property = Own 'a | Inherited | Absent

definition Object_prototype :: "string list" where
  "Object_prototype =
     [''constructor'', ''__defineGetter__'', ''__defineSetter__'', ''hasOwnProperty'',
      ''__lookupGetter__'', ''__lookupSetter__'', ''isPrototypeOf'',
      ''propertyIsEnumerable'', ''toString'', ''valueOf'', ''__proto__'',
      ''toLocaleString'']"

definition get_property :: "(string \<times> 'a) list \<Rightarrow> string \<Rightarrow> 'a property" where
  "get_property obj k =
     (case map_of obj k of
        Some v \<Rightarrow> Own v
      | None \<Rightarrow> if k \<in> set Object_prototype then Inherited else Absent)"

definition hasOwnProperty :: "(string \<times> 'a) list \<Rightarrow> string \<Rightarrow> bool" where
  "hasOwnProperty obj k = (k \<in> set (map fst obj))"

fun set_property :: "string \<Rightarrow> 'a \<Rightarrow> (string \<times> 'a) list \<Rightarrow> (string \<times> 'a) list" where
  \<comment> \<open>\<open>obj[k] = v\<close>: an own property keeps its place, a new one goes last\<close>
  "set_property k v [] = [(k, v)]"
| "set_property k v (p # ps) = (if fst p = k then (k, v) # ps else p # set_property k v ps)"

definition get_num :: "(string \<times> jsnum) list \<Rightarrow> string \<Rightarrow> jsnum" where
  \<comment> \<open>reading a numeric field by its fixed name\<close>
  "get_num obj k = (case map_of obj k of Some v \<Rightarrow> v | None \<Rightarrow> Undefined)"

datatype error = TypeError

subsection \<open>Catalogs\<close>

record locationDef =
  costMultiplier :: real
  jobOpportunities :: real
  salaryMultiplier :: real
  housingCost :: real
  location_description :: string

definition locations :: "(string \<times> locationDef) list" where
  "locations =
     [(''Big City'', \<lparr>costMultiplier = fl 1.5, jobOpportunities = fl 1.2, salaryMultiplier = fl 1.3,
         housingCost = 1500,
         location_description =
           ''High cost of living but better job opportunities and salaries.''\<rparr>),
      (''Suburb'', \<lparr>costMultiplier = fl 1.2, jobOpportunities = fl 1.0, salaryMultiplier = fl 1.1,
         housingCost = 1200,
         location_description = ''Balanced cost of living and job opportunities.''\<rparr>),
      (''Small Town'', \<lparr>costMultiplier = fl 0.8, jobOpportunities = fl 0.7, salaryMultiplier = fl 0.8,
         housingCost = 800,
         location_description =
           ''Lower cost of living but fewer job opportunities and lower salaries.''\<rparr>),
      (''Rural Area'', \<lparr>costMultiplier = fl 0.6, jobOpportunities = fl 0.5, salaryMultiplier = fl 0.7,
         housingCost = 600,
         location_description =
           ''Very low cost of living but limited job opportunities.''\<rparr>)]"

record jobType =
  eduReq :: real
  expReq :: real
  baseSalary :: real
  job_description :: string

definition jobTypes :: "(string \<times> jobType) list" where
  "jobTypes =
     [(''Entry Level Office'', \<lparr>eduReq = 1, expReq = 0, baseSalary = 30000,
         job_description = ''Basic office job with minimal requirements.''\<rparr>),
      (''Retail'', \<lparr>eduReq = 0, expReq = 0, baseSalary = 25000,
         job_description = ''Customer service role with no formal requirements.''\<rparr>),
      (''Skilled Trade'', \<lparr>eduReq = 1, expReq = 1, baseSalary = 45000,
         job_description = ''Specialized skills with some experience required.''\<rparr>),
      (''Professional'', \<lparr>eduReq = 2, expReq = 1, baseSalary = 60000,
         job_description =
           ''Professional position requiring education and experience.''\<rparr>),
      (''Management'', \<lparr>eduReq = 2, expReq = 3, baseSalary = 80000,
         job_description =
           ''Leadership position with significant experience required.''\<rparr>),
      (''Executive'', \<lparr>eduReq = 3, expReq = 5, baseSalary = 120000,
         job_description = ''Top-level position with extensive requirements.''\<rparr>)]"

subsection \<open>The player and the engine\<close>

record job =
  title :: string
  job_salary :: jsnum
  monthsWorked :: int

record finance =
  salary :: jsnum
  savings :: jsnum
  debt :: jsnum
  investments :: "jsnum list"

text \<open>
  The text of a history entry is a template filled with numbers formatted by
  \<open>toLocaleString\<close>, which depends on the locale; the model keeps the template and
  its arguments.
\<close>

datatype message =
    GotJob string jsnum
  | GotRaise jsnum jsnum
  | RandomEventMsg string string bool jsnum
  | MonthSummary int int jsnum jsnum jsnum
  | ImprovedSkill string jsnum jsnum
  | Text string

record historyEntry =
  month :: int
  year :: int
  entry :: message

record player =
  location :: "string option"
  job :: "job option"
  skills :: "(string \<times> jsnum) list"
  finance :: finance
  expenses :: "(string \<times> jsnum) list"
  history :: "historyEntry list"

text \<open>
  A snapshot holds the player object itself, not a copy of it: the model keeps the address
  of the object.
\<close>

record gameState =
  state_player :: nat
  state_gameMonth :: int
  state_gameYear :: int
  state_difficultyLevel :: string

record offer = jobType +
  offer_title :: string
  adjustedSalary :: jsnum

text \<open>The data that \<open>triggerEvent\<close> hands to the listeners of an event.\<close>

datatype payload =
    LocationName string
  | Offers "offer list"
  | AcceptedJob job
  | Raise jsnum jsnum jsnum
  | MonthReport int int jsnum jsnum jsnum bool
  | EventReport string string jsnum
  | ExpenseReport string jsnum jsnum
  | SkillReport string jsnum jsnum
  | LoadedState gameState
  | Null

text \<open>
  Listeners are code outside the engine. The model keeps, in \<open>emitted\<close>, the sequence of
  the calls of \<open>triggerEvent\<close> (event name and data) in the order they were made, and
  takes listeners to observe only. The registry \<open>eventListeners\<close> and its method
  \<open>addEventListener\<close> are not part of the model; the catalogs, which the constructor
  sets and no method changes, are constants.
\<close>

text \<open>
  The engine holds one player object; \<open>player\<close> is what that object contains and
  \<open>playerObject\<close> is its address. \<open>objects\<close> gives what the other player objects of the
  program contain, by address: those that the engine held before and those of other
  engines. Nothing changes an object while the engine does not hold it.
\<close>

record engine =
  player :: player
  playerObject :: nat
  objects :: "nat \<Rightarrow> player option"
  gameMonth :: int
  gameYear :: int
  difficultyLevel :: string
  emitted :: "(string \<times> payload) list"

definition constructor :: engine where
  "constructor =
     \<lparr>player =
        \<lparr>location = None,
         job = None,
         skills = [(''education'', Num 1), (''experience'', Num 0), (''networking'', Num 1)],
         finance = \<lparr>salary = Num 0, savings = Num 2000, debt = Num 0, investments = []\<rparr>,
         expenses =
           [(''housing'', Num 0), (''food'', Num 0), (''utilities'', Num 0),
            (''transportation'', Num 0), (''entertainment'', Num 0), (''other'', Num 0)],
         history = []\<rparr>,
      playerObject = 0,
      objects = Map.empty,
      gameMonth = 1,
      gameYear = 1,
      difficultyLevel = ''normal'',
      emitted = []\<rparr>"

subsection \<open>Writing the fields of the player\<close>

definition set_location :: "string \<Rightarrow> engine \<Rightarrow> engine" where
  "set_location n s = s\<lparr>player := (player s)\<lparr>location := Some n\<rparr>\<rparr>"

definition set_job :: "job \<Rightarrow> engine \<Rightarrow> engine" where
  "set_job j s = s\<lparr>player := (player s)\<lparr>job := Some j\<rparr>\<rparr>"

definition set_salary :: "jsnum \<Rightarrow> engine \<Rightarrow> engine" where
  "set_salary v s = s\<lparr>player := (player s)\<lparr>finance := (finance (player s))\<lparr>salary := v\<rparr>\<rparr>\<rparr>"

definition set_savings :: "jsnum \<Rightarrow> engine \<Rightarrow> engine" where
  "set_savings v s = s\<lparr>player := (player s)\<lparr>finance := (finance (player s))\<lparr>savings := v\<rparr>\<rparr>\<rparr>"

definition set_expense :: "string \<Rightarrow> jsnum \<Rightarrow> engine \<Rightarrow> engine" where
  "set_expense k v s =
     s\<lparr>player := (player s)\<lparr>expenses := set_property k v (expenses (player s))\<rparr>\<rparr>"

definition set_skill :: "string \<Rightarrow> jsnum \<Rightarrow> engine \<Rightarrow> engine" where
  "set_skill k v s =
     s\<lparr>player := (player s)\<lparr>skills := set_property k v (skills (player s))\<rparr>\<rparr>"

subsection \<open>History and notifications\<close>

definition addToHistory :: "message \<Rightarrow> engine \<Rightarrow> engine" where
  "addToHistory e s =
     s\<lparr>player := (player s)\<lparr>history :=
        history (player s) @ [\<lparr>month = gameMonth s, year = gameYear s, entry = e\<rparr>]\<rparr>\<rparr>"

definition triggerEvent :: "string \<Rightarrow> payload \<Rightarrow> engine \<Rightarrow> engine" where
  "triggerEvent event data s = s\<lparr>emitted := emitted s @ [(event, data)]\<rparr>"

subsection \<open>Location and expenses\<close>

definition locationEntry :: "engine \<Rightarrow> locationDef property" where
  \<comment> \<open>\<open>this.locations[this.player.location]\<close>; the key of \<open>null\<close> is the string \<open>null\<close>\<close>
  "locationEntry s =
     get_property locations (case location (player s) of None \<Rightarrow> ''null'' | Some n \<Rightarrow> n)"

fun read_field :: "('a \<Rightarrow> real) \<Rightarrow> 'a property \<Rightarrow> error + jsnum" where
  \<comment> \<open>\<open>entry.field\<close>: a catalog entry has the field, a member of the prototype has not,
      and \<open>undefined\<close> has no properties at all\<close>
  "read_field f (Own e) = Inr (Num (f e))"
| "read_field f Inherited = Inr Undefined"
| "read_field f Absent = Inl TypeError"

definition calculateTotalMonthlyExpenses :: "engine \<Rightarrow> jsnum" where
  "calculateTotalMonthlyExpenses s =
     foldl (\<lambda>total expense. js_add total expense) (Num 0) (map snd (expenses (player s)))"

definition updateBasicExpenses :: "engine \<Rightarrow> error + engine" where
  "updateBasicExpenses s =
     (case read_field costMultiplier (locationEntry s) of
        Inl e \<Rightarrow> Inl e
      | Inr costMultiplier' \<Rightarrow>
          Inr (set_expense ''other'' (Math_round (js_mul (Num 100) costMultiplier'))
              (set_expense ''entertainment'' (Math_round (js_mul (Num 200) costMultiplier'))
              (set_expense ''transportation'' (Math_round (js_mul (Num 300) costMultiplier'))
              (set_expense ''utilities'' (Math_round (js_mul (Num 200) costMultiplier'))
              (set_expense ''food'' (Math_round (js_mul (Num 400) costMultiplier')) s))))))"

definition setLocation :: "string \<Rightarrow> engine \<Rightarrow> error + bool \<times> engine" where
  "setLocation locationName s =
     (case get_property locations locationName of
        Absent \<Rightarrow> Inr (False, s)
      | found \<Rightarrow>
          (case read_field housingCost found of
             Inl e \<Rightarrow> Inl e
           | Inr housing \<Rightarrow>
               (case updateBasicExpenses
                       (set_expense ''housing'' housing (set_location locationName s)) of
                  Inl e \<Rightarrow> Inl e
                | Inr s' \<Rightarrow>
                    Inr (True, triggerEvent ''locationChanged'' (LocationName locationName) s'))))"

definition updateExpense :: "string \<Rightarrow> jsnum \<Rightarrow> engine \<Rightarrow> bool \<times> engine" where
  "updateExpense category amount s =
     (if hasOwnProperty (expenses (player s)) category then
        let s' = set_expense category amount s in
        (True, triggerEvent ''expenseUpdated''
                 (ExpenseReport category amount (calculateTotalMonthlyExpenses s')) s')
      else (False, s))"

subsection \<open>Career\<close>

definition calculateSalary :: "real \<Rightarrow> rng \<Rightarrow> engine \<Rightarrow> error + jsnum \<times> rng" where
  "calculateSalary baseSalary' g s =
     (case read_field salaryMultiplier (locationEntry s) of
        Inl e \<Rightarrow> Inl e
      | Inr locationMultiplier \<Rightarrow>
          let educationBonus =
                js_mul (get_num (skills (player s)) ''education'') (Num (fl 0.05));
              experienceBonus =
                js_mul (get_num (skills (player s)) ''experience'') (Num (fl 0.03));
              (r, g') = Math_random g;
              randomFactor = js_add (Num (fl 0.9)) (js_mul (Num r) (Num (fl 0.2)))
          in Inr (Math_round
                    (js_mul
                       (js_mul (js_mul (Num baseSalary') locationMultiplier)
                          (js_add (js_add (Num 1) educationBonus) experienceBonus))
                       randomFactor),
                  g'))"

text \<open>The loop of \<open>getAvailableJobs\<close> over \<open>Object.entries(this.jobTypes)\<close>.\<close>

fun jobLoop ::
  "(string \<times> jobType) list \<Rightarrow> jsnum \<Rightarrow> offer list \<Rightarrow> rng \<Rightarrow> engine \<Rightarrow> error + offer list \<times> rng"
where
  "jobLoop [] locationFactor availableJobs g s = Inr (availableJobs, g)"
| "jobLoop ((jobTitle, jobDetails) # rest) locationFactor availableJobs g s =
     (let educationMet =
            js_ge (get_num (skills (player s)) ''education'') (Num (eduReq jobDetails));
          experienceMet =
            js_ge (get_num (skills (player s)) ''experience'') (Num (expReq jobDetails));
          (r, g1) = Math_random g;
          chance = js_mul (Num r) locationFactor;
          qualifiedBonus = (if educationMet \<and> experienceMet then Num (fl 0.3) else Num 0);
          networkingBonus = js_mul (get_num (skills (player s)) ''networking'') (Num (fl 0.05))
      in if js_gt (js_add (js_add chance qualifiedBonus) networkingBonus) (Num (fl 0.5)) then
           (case calculateSalary (baseSalary jobDetails) g1 s of
              Inl e \<Rightarrow> Inl e
            | Inr (adjusted, g2) \<Rightarrow>
                jobLoop rest locationFactor
                  (availableJobs @
                     [\<lparr>eduReq = eduReq jobDetails, expReq = expReq jobDetails,
                       baseSalary = baseSalary jobDetails,
                       job_description = job_description jobDetails,
                       offer_title = jobTitle, adjustedSalary = adjusted\<rparr>])
                  g2 s)
         else jobLoop rest locationFactor availableJobs g1 s)"

definition getAvailableJobs :: "rng \<Rightarrow> engine \<Rightarrow> error + offer list \<times> rng \<times> engine" where
  "getAvailableJobs g s =
     (case read_field jobOpportunities (locationEntry s) of
        Inl e \<Rightarrow> Inl e
      | Inr locationFactor \<Rightarrow>
          (case jobLoop jobTypes locationFactor [] g s of
             Inl e \<Rightarrow> Inl e
           | Inr (availableJobs, g') \<Rightarrow>
               Inr (availableJobs, g',
                    triggerEvent ''jobsAvailable'' (Offers availableJobs) s)))"

definition acceptJob :: "string \<Rightarrow> rng \<Rightarrow> engine \<Rightarrow> error + bool \<times> rng \<times> engine" where
  "acceptJob jobTitle g s =
     (case find (\<lambda>(title', _). title' = jobTitle) jobTypes of
        None \<Rightarrow> Inr (False, g, s)
      | Some (title', details) \<Rightarrow>
          (case calculateSalary (baseSalary details) g s of
             Inl e \<Rightarrow> Inl e
           | Inr (salary', g') \<Rightarrow>
               let theJob = \<lparr>title = title', job_salary = salary', monthsWorked = 0\<rparr>;
                   s1 = set_job theJob s;
                   s2 = set_salary (job_salary theJob) s1;
                   s3 = addToHistory (GotJob title' (salary (finance (player s2)))) s2
               in Inr (True, g', triggerEvent ''jobAccepted'' (AcceptedJob theJob) s3)))"

definition tryForRaise :: "rng \<Rightarrow> engine \<Rightarrow> error + jsnum \<times> rng \<times> engine" where
  "tryForRaise g s =
     (case job (player s) of
        None \<Rightarrow> Inl TypeError
      | Some j \<Rightarrow>
          let chance =
                js_add
                  (js_add
                     (js_add (Num (fl 0.05))
                        (js_mul (Num (of_int (monthsWorked j))) (Num (fl 0.002))))
                     (js_mul (get_num (skills (player s)) ''experience'') (Num (fl 0.01))))
                  (js_mul (get_num (skills (player s)) ''networking'') (Num (fl 0.01)));
              (r, g1) = Math_random g
          in if js_lt (Num r) chance then
               let (r', g2) = Math_random g1;
                   raisePercent = js_add (Num (fl 0.03)) (js_mul (Num r') (Num (fl 0.05)));
                   oldSalary = salary (finance (player s));
                   s1 = set_salary (Math_round (js_mul oldSalary (js_add (Num 1) raisePercent))) s;
                   s2 = set_job (j\<lparr>job_salary := salary (finance (player s1))\<rparr>) s1;
                   raiseAmount = js_sub (salary (finance (player s2))) oldSalary;
                   s3 = addToHistory (GotRaise raiseAmount (js_mul raisePercent (Num 100))) s2
               in Inr (raiseAmount, g2,
                       triggerEvent ''gotRaise''
                         (Raise oldSalary (salary (finance (player s3))) raisePercent) s3)
             else Inr (Num 0, g1, s))"

subsection \<open>Random events\<close>

datatype eventCost = Fixed real | Computed "player \<Rightarrow> jsnum"

record randomEvent =
  event_name :: string
  event_description :: string
  cost :: eventCost
  probability :: real

definition randomEvents :: "randomEvent list" where
  "randomEvents =
     [\<lparr>event_name = ''Car Breakdown'', event_description = ''Your car needs repairs.'',
       cost = Fixed 800, probability = fl 0.05\<rparr>,
      \<lparr>event_name = ''Medical Emergency'', event_description = ''Unexpected medical bills.'',
       cost = Fixed 1200, probability = fl 0.03\<rparr>,
      \<lparr>event_name = ''Tax Refund'', event_description = ''You received a tax refund!'',
       cost = Fixed (- 500), probability = fl 0.04\<rparr>,
      \<lparr>event_name = ''Family Emergency'',
       event_description = ''You need to help a family member.'',
       cost = Fixed 600, probability = fl 0.03\<rparr>,
      \<lparr>event_name = ''Bonus'', event_description = ''You received a performance bonus!'',
       cost = Computed (\<lambda>p. js_mul (js_neg (salary (finance p))) (Num (fl 0.05))),
       probability = fl 0.06\<rparr>]"

definition costOf :: "randomEvent \<Rightarrow> engine \<Rightarrow> jsnum" where
  \<comment> \<open>\<open>typeof event.cost === 'function' ? event.cost(this.player) : event.cost\<close>\<close>
  "costOf event s = (case cost event of Computed f \<Rightarrow> f (player s) | Fixed c \<Rightarrow> Num c)"

definition eventTriggered :: "randomEvent \<Rightarrow> engine \<Rightarrow> engine" where
  \<comment> \<open>the body of the \<open>if\<close> in the loop of \<open>processRandomEvent\<close>\<close>
  "eventTriggered event s =
     (let cost' = costOf event s;
          s1 = set_savings (js_sub (savings (finance (player s))) cost') s;
          s2 = addToHistory
                 (RandomEventMsg (event_name event) (event_description event)
                    (js_lt cost' (Num 0)) (Math_abs cost')) s1
      in triggerEvent ''randomEvent''
           (EventReport (event_name event) (event_description event) cost') s2)"

fun eventLoop :: "randomEvent list \<Rightarrow> rng \<Rightarrow> engine \<Rightarrow> rng \<times> engine" where
  "eventLoop [] g s = (g, s)"
| "eventLoop (event # rest) g s =
     (let (r, g') = Math_random g
      in if r < probability event then (g', eventTriggered event s)
         else eventLoop rest g' s)"

definition processRandomEvent :: "rng \<Rightarrow> engine \<Rightarrow> rng \<times> engine" where
  "processRandomEvent g s = eventLoop randomEvents g s"

subsection \<open>The monthly cycle\<close>

record monthResult =
  isBroke :: bool
  result_month :: int
  result_year :: int

definition monthlyIncome :: "engine \<Rightarrow> jsnum" where
  \<comment> \<open>\<open>Math.round(this.player.finance.salary / 12)\<close>\<close>
  "monthlyIncome s = Math_round (js_div (salary (finance (player s))) 12)"

definition creditIncome :: "rng \<Rightarrow> engine \<Rightarrow> error + rng \<times> engine" where
  \<comment> \<open>the block \<open>if (this.player.job) { ... }\<close> that opens \<open>processMonth\<close>\<close>
  "creditIncome g s =
     (case job (player s) of
        None \<Rightarrow> Inr (g, s)
      | Some j \<Rightarrow>
          let s1 = set_savings (js_add (savings (finance (player s))) (monthlyIncome s)) s;
              s2 = set_job (j\<lparr>monthsWorked := increment (monthsWorked j)\<rparr>) s1
          in (case tryForRaise g s2 of
                Inl e \<Rightarrow> Inl e
              | Inr (_, g', s3) \<Rightarrow> Inr (g', s3)))"

definition processMonth :: "rng \<Rightarrow> engine \<Rightarrow> error + monthResult \<times> rng \<times> engine" where
  "processMonth g s =
     (case creditIncome g s of
        Inl e \<Rightarrow> Inl e
      | Inr (g1, s1) \<Rightarrow>
          let monthlyExpenses = calculateTotalMonthlyExpenses s1;
              s2 = set_savings (js_sub (savings (finance (player s1))) monthlyExpenses) s1;
              (g2, s3) = processRandomEvent g1 s2;
              s4 = s3\<lparr>gameMonth := increment (gameMonth s3)\<rparr>;
              s5 = (if gameMonth s4 > 12
                    then s4\<lparr>gameMonth := 1, gameYear := increment (gameYear s4)\<rparr> else s4);
              isBroke' = js_lt (savings (finance (player s5))) (Num 0);
              income = (if job (player s5) \<noteq> None then monthlyIncome s5 else Num 0);
              s6 = addToHistory
                     (MonthSummary (gameMonth s5) (gameYear s5) income monthlyExpenses
                        (savings (finance (player s5)))) s5;
              s7 = triggerEvent ''monthProcessed''
                     (MonthReport (gameMonth s6) (gameYear s6) income monthlyExpenses
                        (savings (finance (player s6))) isBroke') s6
          in Inr (\<lparr>isBroke = isBroke', result_month = gameMonth s7, result_year = gameYear s7\<rparr>,
                  g2, s7))"

subsection \<open>Skills\<close>

definition improveSkill :: "string \<Rightarrow> jsnum \<Rightarrow> engine \<Rightarrow> bool \<times> engine" where
  \<comment> \<open>the default \<open>amount = 1\<close> stands in for an argument that is \<open>undefined\<close>\<close>
  "improveSkill skillName amount s =
     (let amount' = (case amount of Undefined \<Rightarrow> Num 1 | _ \<Rightarrow> amount)
      in if hasOwnProperty (skills (player s)) skillName then
           let cost' = js_mul (js_mul (Num 500) amount')
                         (js_add (get_num (skills (player s)) skillName) (Num 1))
           in if js_ge (savings (finance (player s))) cost' then
                let s1 = set_savings (js_sub (savings (finance (player s))) cost') s;
                    s2 = set_skill skillName
                           (js_add (get_num (skills (player s1)) skillName) amount') s1;
                    s3 = addToHistory
                           (ImprovedSkill skillName (get_num (skills (player s2)) skillName)
                              cost') s2
                in (True,
                    triggerEvent ''skillImproved''
                      (SkillReport skillName (get_num (skills (player s3)) skillName) cost') s3)
              else (False, s)
         else (False, s))"

subsection \<open>Saving, loading and resetting\<close>





text \<open>
  \<open>FinancialSimulation\<close> is declared with \<open>class\<close>. Such a constructor runs its body
  only when it is invoked with \<open>new\<close>; invoked as a function, it throws a
  \<open>TypeError\<close> before the body starts. \<open>resetGame\<close> invokes it as a function:
  \<open>this.constructor()\<close>.
\<close>

datatype invocation = New | Call

definition FinancialSimulation :: "invocation \<Rightarrow> error + engine" where
  "FinancialSimulation how = (case how of New \<Rightarrow> Inr constructor | Call \<Rightarrow> Inl TypeError)"

definition resetGame :: "engine \<Rightarrow> error + engine" where
  "resetGame s =
     (case FinancialSimulation Call of
        Inl e \<Rightarrow> Inl e
      | Inr s' \<Rightarrow> Inr (triggerEvent ''gameReset'' Null (s'\<lparr>emitted := emitted s\<rparr>)))"

subsection \<open>Calls from outside\<close>




subsection \<open>Notions used to state the properties\<close>

definition expenseCategories :: "string list" where
  \<comment> \<open>the keys of \<open>player.expenses\<close> as the constructor lists them\<close>
  "expenseCategories =
     [''housing'', ''food'', ''utilities'', ''transportation'', ''entertainment'', ''other'']"

definition sumOf :: "string list \<Rightarrow> engine \<Rightarrow> jsnum" where
  \<comment> \<open>the sum of the stored values of the given expense categories\<close>
  "sumOf categories s =
     foldl js_add (Num 0) (map (get_num (expenses (player s))) categories)"





section \<open>Properties\<close>

subsection \<open>Doubles\<close>

lemma roundTiesToEven_of_int: "roundTiesToEven (of_int m) = m"
  by (simp add: roundTiesToEven_def)

lemma roundTiesToEven_minus: "roundTiesToEven (- r) = - roundTiesToEven r"
proof (cases "r \<in> \<int>")
  case True
  then obtain m where "r = of_int m" by (auto elim: Ints_cases)
  then show ?thesis by (simp add: roundTiesToEven_of_int flip: of_int_minus)
next
  case False
  then have ne: "r \<noteq> of_int \<lfloor>r\<rfloor>" by (metis Ints_of_int)
  then have c: "\<lfloor>- r\<rfloor> = - \<lfloor>r\<rfloor> - 1" by (simp add: floor_minus ceiling_altdef)
  from ne have "r - of_int \<lfloor>r\<rfloor> \<noteq> 0" by simp
  then have "0 < r - of_int \<lfloor>r\<rfloor>" by (smt (verit) of_int_floor_le)
  then show ?thesis
    unfolding roundTiesToEven_def Let_def c
    by (auto simp: algebra_simps)
qed

text \<open>Rounding is symmetric.\<close>

lemma fl_minus: "fl (- x) = - fl x"
proof -
  have "exponent (- x) = exponent x" by (simp add: exponent_def)
  then show ?thesis
    by (simp add: fl_def Let_def roundTiesToEven_minus flip: minus_divide_left)
qed

lemma exponent_of_int:
  assumes "n \<noteq> 0"
  shows "exponent (of_int n) = bitlen \<bar>n\<bar> - 1"
proof -
  from assms have "1 \<le> \<bar>real_of_int n\<bar>" by (simp flip: of_int_abs)
  moreover have "\<lfloor>\<bar>real_of_int n\<bar>\<rfloor> = \<bar>n\<bar>" by (simp flip: of_int_abs)
  ultimately show ?thesis by (simp add: exponent_def)
qed

text \<open>Every integer of magnitude up to \<open>2 ^ 53\<close> is a double.\<close>

lemma fl_int:
  assumes "\<bar>n\<bar> \<le> 2 ^ 53"
  shows "fl (of_int n) = of_int n"
proof (cases "n = 0")
  case True
  then show ?thesis by (simp add: fl_def roundTiesToEven_def)
next
  case False
  define p where "p = bitlen \<bar>n\<bar> - 1"
  from False have pos: "0 < \<bar>n\<bar>" by simp
  from bitlen_bounds [OF pos]
  have lo: "2 ^ nat p \<le> \<bar>n\<bar>" and hi: "\<bar>n\<bar> < 2 ^ nat (p + 1)"
    by (simp_all add: p_def)
  from pos have p0: "0 \<le> p" using bitlen_nonneg [of "\<bar>n\<bar>"] bitlen_eq_zero_iff [of "\<bar>n\<bar>"]
    by (simp add: p_def)
  have p53: "p \<le> 53"
  proof (rule ccontr)
    assume "\<not> p \<le> 53"
    then have "54 \<le> nat p" by simp
    then have "(2::int) ^ 54 \<le> 2 ^ nat p" by (intro power_increasing) simp_all
    with lo assms show False by simp
  qed
  have e: "max (exponent (of_int n)) (- 1022) = p"
    using exponent_of_int [OF False] p0 by (simp add: p_def)
  show ?thesis
  proof (cases "p \<le> 52")
    case True
    define m where "m = n * 2 ^ nat (52 - p)"
    have u: "(2::real) powi (p - 52) = 1 / 2 ^ nat (52 - p)"
      using True by (simp add: power_int_def field_simps)
    have "real_of_int n / (1 / 2 ^ nat (52 - p)) = of_int m"
      by (simp add: m_def)
    then have "fl (of_int n) = of_int m * (1 / 2 ^ nat (52 - p))"
      by (simp add: fl_def e u roundTiesToEven_of_int del: of_int_mult)
    then show ?thesis by (simp add: m_def)
  next
    case False
    with p53 have p: "p = 53" by simp
    with lo assms have "\<bar>n\<bar> = 2 ^ 53" by simp
    then have "n = 2 ^ 53 \<or> n = - (2 ^ 53)" by linarith
    then show ?thesis
    proof
      assume "n = 2 ^ 53"
      then show ?thesis
        using e p by (simp add: fl_def roundTiesToEven_def)
    next
      assume "n = - (2 ^ 53)"
      then show ?thesis
        using e p by (simp add: fl_def roundTiesToEven_def)
    qed
  qed
qed

lemma box_finite: "\<bar>r\<bar> < 2 ^ 1024 \<Longrightarrow> box r = Num r"
  unfolding box_def by (simp del: power_numeral) linarith


lemma increment_small: "- (2 ^ 53) \<le> n \<Longrightarrow> n < 2 ^ 53 \<Longrightarrow> increment n = n + 1"
proof -
  assume "- (2 ^ 53) \<le> n" and "n < 2 ^ 53"
  then have "\<bar>n + 1\<bar> \<le> 2 ^ 53" by simp
  from fl_int [OF this] show ?thesis by (simp add: increment_def)
qed

text \<open>
  The rules by which the rounding of a given rational number is computed.
\<close>

lemma bitlen_numeral: "bitlen (numeral k) = bitlen (numeral k div 2) + 1"
  using compute_bitlen [of "numeral k"] by simp

lemma bitlen_one: "bitlen 1 = 1"
  using compute_bitlen [of 1] by simp

lemma bitlen_neg_numeral: "bitlen (- numeral k) = 0"
  by (simp add: bitlen_eq_zero_iff)

lemma fl_0: "fl 0 = 0"
  by (simp add: fl_def roundTiesToEven_def)

lemma fl_1: "fl 1 = 1"
  using fl_int [of 1] by simp

lemmas doubles =
  fl_def [of "numeral a / numeral b" for a b] fl_def [of "numeral a" for a]
  fl_def [of "1 / numeral b" for b]
  exponent_def [of "numeral a / numeral b" for a b] exponent_def [of "numeral a" for a]
  exponent_def [of "1 / numeral b" for b]
  roundTiesToEven_def bitlen_numeral bitlen_one bitlen_neg_numeral Let_def power_int_minus
  fl_minus fl_0 fl_1 box_finite

text \<open>
  Some doubles: the literal \<open>0.1\<close> denotes 3602879701896397 / 36028797018963968, the sum
  of the doubles of \<open>0.1\<close> and \<open>0.2\<close> is not the double of \<open>0.3\<close>, the integer after
  \<open>2 ^ 53\<close> is not a double, and the largest double plus one is the largest double.
\<close>

lemma fl_tenth: "fl 0.1 = 3602879701896397 / 36028797018963968"
  by (simp add: doubles)

lemma tenth_plus_fifth:
  "js_add (Num (fl 0.1)) (Num (fl 0.2)) = Num (fl 0.3 + 1 / 2 ^ 54) \<and>
   js_add (Num (fl 0.1)) (Num (fl 0.2)) \<noteq> Num (fl 0.3)"
  by (simp add: doubles)

lemma fl_after_2_53:
  "fl (2 ^ 53 + 1) = 2 ^ 53 \<and> fl (2 ^ 53 + 2) = 2 ^ 53 + 2 \<and> fl (2 ^ 53 + 3) = 2 ^ 53 + 4"
  by (simp add: doubles)

lemma largest_double:
  "js_add (Num (2 ^ 1024 - 2 ^ 971)) (Num 1) = Num (2 ^ 1024 - 2 ^ 971) \<and>
   js_add (Num (2 ^ 1024 - 2 ^ 971)) (Num (2 ^ 970)) = PosInfinity"
  by (simp add: doubles box_def)

subsection \<open>Auxiliary facts\<close>

lemmas setters = set_location_def set_job_def set_salary_def set_savings_def set_expense_def
  set_skill_def addToHistory_def triggerEvent_def

lemma get_num_own_values:
  "distinct (map fst obj) \<Longrightarrow> map (get_num obj) (map fst obj) = map snd obj"
proof (induction obj)
  case Nil
  then show ?case by simp
next
  case (Cons p obj)
  have "\<forall>k\<in>set (map fst obj). get_num (p # obj) k = get_num obj k"
    using Cons.prems by (cases p) (auto simp: get_num_def)
  then have "map (get_num (p # obj)) (map fst obj) = map (get_num obj) (map fst obj)"
    by simp
  with Cons show ?case by (cases p) (simp add: get_num_def)
qed


lemma map_of_set_property:
  "map_of (set_property k v obj) = (map_of obj)(k \<mapsto> v)"
  by (induction obj) auto


lemma setLocation_Big_City:
  "setLocation ''Big City'' constructor =
     Inr (True,
          constructor\<lparr>player := (player constructor)
             \<lparr>location := Some ''Big City'',
              expenses := [(''housing'', Num 1500), (''food'', Num 600), (''utilities'', Num 300),
                 (''transportation'', Num 450), (''entertainment'', Num 300), (''other'', Num 150)]\<rparr>,
             emitted := [(''locationChanged'', LocationName ''Big City'')]\<rparr>)"
  by (simp add: setLocation_def get_property_def locations_def updateBasicExpenses_def
      locationEntry_def setters constructor_def doubles)

subsection \<open>Resetting\<close>

text \<open>
  Claim C1 says that \<open>resetGame()\<close> restores the player, the calendar and the difficulty
  level to the defaults of the constructor, emits the game-reset notification and returns.
  The code does not: in every engine the call \<open>this.constructor()\<close> throws a
  \<open>TypeError\<close>, since a class constructor cannot be invoked without \<open>new\<close>. Nothing is
  restored and nothing is emitted.
\<close>

theorem resetGame_throws: "resetGame s = Inl TypeError"
  by (simp add: resetGame_def FinancialSimulation_def)

subsection \<open>Failing calls\<close>

text \<open>
  Claim C2 says that \<open>setLocation\<close> with an unknown location name, \<open>acceptJob\<close> with an
  unknown title, \<open>updateExpense\<close> with an unknown category and \<open>improveSkill\<close> with an
  unknown skill or too little money return a falsy value and leave the engine as it was.
  For \<open>setLocation\<close> the code does not: the name \<open>constructor\<close> is in no catalog, yet
  \<open>this.locations["constructor"]\<close> finds the member of \<open>Object.prototype\<close>, which is
  truthy. On a fresh engine the call returns \<open>true\<close>, stores the name as the location,
  \<open>undefined\<close> as the housing expense and \<open>NaN\<close> as the five other expenses, and emits
  the location-changed notification.
\<close>

theorem setLocation_constructor:
  "setLocation ''constructor'' constructor =
     Inr (True,
          constructor\<lparr>player := (player constructor)
             \<lparr>location := Some ''constructor'',
              expenses := [(''housing'', Undefined), (''food'', NaN), (''utilities'', NaN),
                 (''transportation'', NaN), (''entertainment'', NaN), (''other'', NaN)]\<rparr>,
             emitted := [(''locationChanged'', LocationName ''constructor'')]\<rparr>)"
  by (simp add: setLocation_def get_property_def locations_def Object_prototype_def
      updateBasicExpenses_def locationEntry_def setters constructor_def)

text \<open>
  The same happens in every engine and for every name that \<open>Object.prototype\<close> has and
  the catalog has not.
\<close>

lemma setLocation_inherited:
  assumes "get_property locations locationName = Inherited"
  shows "\<exists>s'. setLocation locationName s = Inr (True, s') \<and>
           location (player s') = Some locationName \<and>
           get_num (expenses (player s')) ''housing'' = Undefined \<and>
           get_num (expenses (player s')) ''food'' = NaN"
proof -
  have "locationEntry (set_expense ''housing'' Undefined (set_location locationName s)) =
          Inherited"
    using assms by (simp add: locationEntry_def setters)
  with assms show ?thesis
    by (simp add: setLocation_def updateBasicExpenses_def setters get_num_def
        map_of_set_property)
qed

text \<open>
  The other failures are as the claim says, and so is \<open>setLocation\<close> for a name that is
  neither in the catalog nor in \<open>Object.prototype\<close>.
\<close>

lemma setLocation_returns: "\<exists>ok s'. setLocation locationName s = Inr (ok, s')"
proof (cases "get_property locations locationName")
  case (Own l)
  then have "locationEntry (set_expense ''housing'' (Num (housingCost l))
      (set_location locationName s)) = Own l"
    by (simp add: locationEntry_def setters)
  with Own show ?thesis by (auto simp: setLocation_def updateBasicExpenses_def)
next
  case Inherited
  then have "locationEntry (set_expense ''housing'' Undefined
      (set_location locationName s)) = Inherited"
    by (simp add: locationEntry_def setters)
  with Inherited show ?thesis by (auto simp: setLocation_def updateBasicExpenses_def)
next
  case Absent
  then show ?thesis by (auto simp: setLocation_def)
qed

lemma setLocation_absent:
  "get_property locations locationName = Absent \<Longrightarrow> setLocation locationName s = Inr (False, s)"
  by (simp add: setLocation_def)

lemma acceptJob_unknown:
  assumes "jobTitle \<notin> set (map fst jobTypes)"
  shows "acceptJob jobTitle g s = Inr (False, g, s)"
proof -
  from assms have "find (\<lambda>(title', _). title' = jobTitle) jobTypes = None"
    by (force simp: find_None_iff)
  then show ?thesis by (simp add: acceptJob_def)
qed

lemma updateExpense_unknown:
  "\<not> hasOwnProperty (expenses (player s)) category \<Longrightarrow>
     updateExpense category amount s = (False, s)"
  by (simp add: updateExpense_def)

lemma improveSkill_unknown:
  "\<not> hasOwnProperty (skills (player s)) skillName \<Longrightarrow>
     improveSkill skillName amount s = (False, s)"
  by (simp add: improveSkill_def)

lemma improveSkill_insufficient:
  "\<not> js_ge (savings (finance (player s)))
        (js_mul (js_mul (Num 500) (case amount of Undefined \<Rightarrow> Num 1 | _ \<Rightarrow> amount))
           (js_add (get_num (skills (player s)) skillName) (Num 1))) \<Longrightarrow>
     improveSkill skillName amount s = (False, s)"
  by (simp add: improveSkill_def Let_def)

subsection \<open>Total of the monthly expenses\<close>

text \<open>
  Claim C3 says that \<open>calculateTotalMonthlyExpenses()\<close> is the sum of the five stored
  expense values. The engine stores six categories and the total adds all six: after
  \<open>setLocation("Big City")\<close> on a fresh engine the total is 3300, and leaving out any one
  of the six categories gives a different sum.
\<close>

theorem total_is_not_sum_of_five:
  "case setLocation ''Big City'' constructor of
     Inl e \<Rightarrow> False
   | Inr (ok, s) \<Rightarrow>
       calculateTotalMonthlyExpenses s = Num 3300 \<and>
       sumOf (remove1 ''housing'' expenseCategories) s = Num 1800 \<and>
       sumOf (remove1 ''food'' expenseCategories) s = Num 2700 \<and>
       sumOf (remove1 ''utilities'' expenseCategories) s = Num 3000 \<and>
       sumOf (remove1 ''transportation'' expenseCategories) s = Num 2850 \<and>
       sumOf (remove1 ''entertainment'' expenseCategories) s = Num 3000 \<and>
       sumOf (remove1 ''other'' expenseCategories) s = Num 3150"
  by (simp add: setLocation_Big_City expenseCategories_def sumOf_def get_num_def
      calculateTotalMonthlyExpenses_def doubles)

text \<open>
  Claim C3 as amended: in every engine whose expenses have the six categories of the
  constructor, \<open>calculateTotalMonthlyExpenses()\<close> is the sum of the six stored values
  (housing, food, utilities, transportation, entertainment, other).
\<close>

theorem total_is_sum_of_six:
  assumes "map fst (expenses (player s)) = expenseCategories"
  shows "calculateTotalMonthlyExpenses s = sumOf expenseCategories s"
proof -
  have "distinct (map fst (expenses (player s)))"
    by (simp add: assms expenseCategories_def)
  then have "map (get_num (expenses (player s))) expenseCategories = map snd (expenses (player s))"
    using get_num_own_values [of "expenses (player s)"] by (simp add: assms)
  then show ?thesis
    by (simp add: calculateTotalMonthlyExpenses_def sumOf_def)
qed

theorem total_is_sum_of_six_witness:
  "case setLocation ''Big City'' constructor of
     Inl e \<Rightarrow> False
   | Inr (ok, s) \<Rightarrow>
       map fst (expenses (player s)) = expenseCategories \<and>
       calculateTotalMonthlyExpenses s = sumOf expenseCategories s \<and>
       sumOf expenseCategories s = Num 3300"
proof -
  let ?s = "snd (projr (setLocation ''Big City'' constructor))"
  have k: "map fst (expenses (player ?s)) = expenseCategories"
    by (simp add: setLocation_Big_City expenseCategories_def)
  have "sumOf expenseCategories ?s = Num 3300"
    by (simp add: setLocation_Big_City expenseCategories_def sumOf_def get_num_def doubles)
  with k total_is_sum_of_six [OF k] show ?thesis
    by (simp add: setLocation_Big_City)
qed

subsection \<open>Saving and loading\<close>






subsection \<open>Random events\<close>

lemma eventLoop_first:
  "k < length es \<Longrightarrow> g k < probability (es ! k) \<Longrightarrow>
   \<forall>i<k. \<not> g i < probability (es ! i) \<Longrightarrow>
   eventLoop es g s = (\<lambda>n. g (n + Suc k), eventTriggered (es ! k) s)"
proof (induction es arbitrary: g k)
  case Nil
  then show ?case by simp
next
  case (Cons e es)
  show ?case
  proof (cases k)
    case 0
    with Cons.prems show ?thesis by (simp add: Math_random_def)
  next
    case (Suc m)
    with Cons.prems have first: "\<not> g 0 < probability e" by auto
    have "eventLoop es (\<lambda>n. g (Suc n)) s =
            (\<lambda>n. g (Suc (n + Suc m)), eventTriggered (es ! m) s)"
      using Cons.prems Suc by (intro Cons.IH) auto
    with first Suc show ?thesis by (simp add: Math_random_def)
  qed
qed

lemma eventLoop_none:
  "\<forall>i<length es. \<not> g i < probability (es ! i) \<Longrightarrow>
   eventLoop es g s = (\<lambda>n. g (n + length es), s)"
proof (induction es arbitrary: g)
  case Nil
  then show ?case by simp
next
  case (Cons e es)
  from Cons.prems have first: "\<not> g 0 < probability e" by auto
  have "eventLoop es (\<lambda>n. g (Suc n)) s = (\<lambda>n. g (Suc (n + length es)), s)"
    using Cons.prems by (intro Cons.IH) auto
  with first show ?case by (simp add: Math_random_def)
qed

lemma eventLoop_cases:
  "snd (eventLoop es g s) = s \<or> (\<exists>e\<in>set es. snd (eventLoop es g s) = eventTriggered e s)"
  by (induction es arbitrary: g) (auto simp: Math_random_def)

lemma eventTriggered_savings:
  "savings (finance (player (eventTriggered e s))) =
     js_sub (savings (finance (player s))) (costOf e s)"
  by (simp add: eventTriggered_def Let_def setters)

lemma eventTriggered_history:
  "history (player (eventTriggered e s)) =
     history (player s) @
       [\<lparr>month = gameMonth s, year = gameYear s,
         entry = RandomEventMsg (event_name e) (event_description e)
                   (js_lt (costOf e s) (Num 0)) (Math_abs (costOf e s))\<rparr>]"
  by (simp add: eventTriggered_def Let_def setters)

lemma eventTriggered_emitted:
  "emitted (eventTriggered e s) =
     emitted s @ [(''randomEvent'', EventReport (event_name e) (event_description e) (costOf e s))]"
  by (simp add: eventTriggered_def Let_def setters)

lemma costOf_catalog:
  assumes "k < length randomEvents"
  shows "costOf (randomEvents ! k) s =
           [Num 800, Num 1200, Num (- 500), Num 600,
            js_mul (js_neg (salary (finance (player s)))) (Num (fl 0.05))] ! k"
proof -
  from assms have "k < 5" by (simp add: randomEvents_def)
  then have "k = 0 \<or> k = 1 \<or> k = 2 \<or> k = 3 \<or> k = 4" by arith
  then show ?thesis by (auto simp: randomEvents_def costOf_def)
qed

text \<open>
  Claim C4: one call of \<open>processRandomEvent()\<close> fires at most one event. With \<open>g i\<close>
  the draw made for the event at place \<open>i\<close> of the catalog, the event that fires is the
  first one whose draw is below its probability, whatever the draws after it are, and the
  call makes no draw after that one. The savings after the call are the savings before it
  minus the cost of that event: 800 for the car breakdown, 1200 for the medical
  emergency, -500 for the tax refund, 600 for the family emergency, and the salary negated
  and multiplied by 0.05 for the bonus, so that a negative cost adds to the savings. The
  call adds one history entry and one notification. When no draw is below its probability
  the engine is unchanged.
\<close>

theorem processRandomEvent_first_trigger:
  "(k < length randomEvents \<and> g k < probability (randomEvents ! k) \<and>
      (\<forall>i<k. \<not> g i < probability (randomEvents ! i)) \<longrightarrow>
      processRandomEvent g s = (\<lambda>n. g (n + Suc k), eventTriggered (randomEvents ! k) s) \<and>
      savings (finance (player (snd (processRandomEvent g s)))) =
        js_sub (savings (finance (player s)))
          ([Num 800, Num 1200, Num (- 500), Num 600,
            js_mul (js_neg (salary (finance (player s)))) (Num (fl 0.05))] ! k) \<and>
      length (history (player (snd (processRandomEvent g s)))) =
        Suc (length (history (player s))) \<and>
      length (emitted (snd (processRandomEvent g s))) = Suc (length (emitted s))) \<and>
   ((\<forall>i<length randomEvents. \<not> g i < probability (randomEvents ! i)) \<longrightarrow>
      processRandomEvent g s = (\<lambda>n. g (n + length randomEvents), s)) \<and>
   (snd (processRandomEvent g s) = s \<or>
      (\<exists>e\<in>set randomEvents. snd (processRandomEvent g s) = eventTriggered e s))"
proof -
  have "processRandomEvent g s = (\<lambda>n. g (n + Suc k), eventTriggered (randomEvents ! k) s) \<and>
      savings (finance (player (snd (processRandomEvent g s)))) =
        js_sub (savings (finance (player s)))
          ([Num 800, Num 1200, Num (- 500), Num 600,
            js_mul (js_neg (salary (finance (player s)))) (Num (fl 0.05))] ! k) \<and>
      length (history (player (snd (processRandomEvent g s)))) =
        Suc (length (history (player s))) \<and>
      length (emitted (snd (processRandomEvent g s))) = Suc (length (emitted s))"
    if k: "k < length randomEvents" and below: "g k < probability (randomEvents ! k)"
      and first: "\<forall>i<k. \<not> g i < probability (randomEvents ! i)"
  proof -
    from eventLoop_first [OF k below first]
    have run: "processRandomEvent g s =
        (\<lambda>n. g (n + Suc k), eventTriggered (randomEvents ! k) s)"
      by (simp add: processRandomEvent_def)
    have "savings (finance (player (eventTriggered (randomEvents ! k) s))) =
        js_sub (savings (finance (player s)))
          ([Num 800, Num 1200, Num (- 500), Num 600,
            js_mul (js_neg (salary (finance (player s)))) (Num (fl 0.05))] ! k)"
      unfolding eventTriggered_savings costOf_catalog [OF k] ..
    with run show ?thesis
      by (simp add: eventTriggered_history eventTriggered_emitted)
  qed
  moreover
  have "processRandomEvent g s = (\<lambda>n. g (n + length randomEvents), s)"
    if "\<forall>i<length randomEvents. \<not> g i < probability (randomEvents ! i)"
    using eventLoop_none [OF that] by (simp add: processRandomEvent_def)
  moreover
  have "snd (processRandomEvent g s) = s \<or>
      (\<exists>e\<in>set randomEvents. snd (processRandomEvent g s) = eventTriggered e s)"
    using eventLoop_cases [of randomEvents g s] by (simp add: processRandomEvent_def)
  ultimately show ?thesis by blast
qed

text \<open>
  Three runs. On a fresh engine, when every draw is 0, every event qualifies and only the
  first, the car breakdown, fires: the savings fall from 2000 to 1200. When the first two
  draws are 0.5 and the others 0, the tax refund at place 2 fires, not the two events
  after it, and its cost of -500 raises the savings to 2500. In an engine with the retail
  job at a salary of 30713, when the first four draws are 0.5 and the fifth is 0, the
  bonus fires: its cost is -1535.65 and the savings rise from 2000 to 3535.65.
\<close>

theorem processRandomEvent_first_trigger_witness:
  "list_all (\<lambda>e. (0::real) < probability e) randomEvents \<and>
   processRandomEvent (\<lambda>_. 0) constructor =
     (\<lambda>_. 0, eventTriggered (randomEvents ! 0) constructor) \<and>
   event_name (randomEvents ! 0) = ''Car Breakdown'' \<and>
   savings (finance (player (snd (processRandomEvent (\<lambda>_. 0) constructor)))) = Num 1200 \<and>
   processRandomEvent (\<lambda>n. if n < 2 then 1 / 2 else 0) constructor =
     (\<lambda>_. 0, eventTriggered (randomEvents ! 2) constructor) \<and>
   event_name (randomEvents ! 2) = ''Tax Refund'' \<and>
   savings (finance (player
      (snd (processRandomEvent (\<lambda>n. if n < 2 then 1 / 2 else 0) constructor)))) = Num 2500 \<and>
   event_name (randomEvents ! 4) = ''Bonus'' \<and>
   savings (finance (player
      (set_salary (Num 30713)
         (set_job \<lparr>title = ''Retail'', job_salary = Num 30713, monthsWorked = 0\<rparr>
            constructor)))) = Num 2000 \<and>
   processRandomEvent (\<lambda>n. if n < 4 then 1 / 2 else 0)
      (set_salary (Num 30713)
         (set_job \<lparr>title = ''Retail'', job_salary = Num 30713, monthsWorked = 0\<rparr>
            constructor)) =
     (\<lambda>_. 0,
      eventTriggered (randomEvents ! 4)
        (set_salary (Num 30713)
           (set_job \<lparr>title = ''Retail'', job_salary = Num 30713, monthsWorked = 0\<rparr>
              constructor))) \<and>
   savings (finance (player
      (snd (processRandomEvent (\<lambda>n. if n < 4 then 1 / 2 else 0)
         (set_salary (Num 30713)
            (set_job \<lparr>title = ''Retail'', job_salary = Num 30713, monthsWorked = 0\<rparr>
               constructor)))))) = Num (fl 3535.65)"
proof -
  let ?J = "set_salary (Num 30713)
      (set_job \<lparr>title = ''Retail'', job_salary = Num 30713, monthsWorked = 0\<rparr> constructor)"
  have all: "list_all (\<lambda>e. (0::real) < probability e) randomEvents"
    by (simp add: randomEvents_def doubles)
  have start: "savings (finance (player constructor)) = Num 2000"
      "savings (finance (player ?J)) = Num 2000" "salary (finance (player ?J)) = Num 30713"
    by (simp_all add: constructor_def setters)
  have k: "0 < length randomEvents" "2 < length randomEvents" "4 < length randomEvents"
    by (simp_all add: randomEvents_def)
  have p0: "(0::real) < probability (randomEvents ! 0)"
    by (simp add: randomEvents_def doubles)
  have first: "processRandomEvent (\<lambda>_. 0) constructor =
          (\<lambda>_. 0, eventTriggered (randomEvents ! 0) constructor) \<and>
      savings (finance (player (snd (processRandomEvent (\<lambda>_. 0) constructor)))) = Num 1200"
    using processRandomEvent_first_trigger [of 0 "\<lambda>_. 0" constructor] k(1) p0
    by (auto simp: start doubles)
  have p2: "(0::real) < probability (randomEvents ! 2)"
      "\<forall>i<2. \<not> (if i < 2 then 1 / 2 else (0::real)) < probability (randomEvents ! i)"
    by (simp_all add: randomEvents_def All_less_Suc2 numeral_2_eq_2 doubles)
  have third: "processRandomEvent (\<lambda>n. if n < 2 then 1 / 2 else 0) constructor =
          (\<lambda>_. 0, eventTriggered (randomEvents ! 2) constructor) \<and>
      savings (finance (player
        (snd (processRandomEvent (\<lambda>n. if n < 2 then 1 / 2 else 0) constructor)))) = Num 2500"
    using processRandomEvent_first_trigger [of 2 "\<lambda>n. if n < 2 then 1 / 2 else 0" constructor]
      k(2) p2
    by (auto simp: start doubles)
  have p4: "(0::real) < probability (randomEvents ! 4)"
      "\<forall>i<4. \<not> (if i < 4 then 1 / 2 else (0::real)) < probability (randomEvents ! i)"
    by (simp_all add: randomEvents_def All_less_Suc2 numeral_eq_Suc doubles)
  have fifth: "processRandomEvent (\<lambda>n. if n < 4 then 1 / 2 else 0) ?J =
          (\<lambda>_. 0, eventTriggered (randomEvents ! 4) ?J) \<and>
      savings (finance (player
        (snd (processRandomEvent (\<lambda>n. if n < 4 then 1 / 2 else 0) ?J)))) = Num (fl 3535.65)"
    using processRandomEvent_first_trigger [of 4 "\<lambda>n. if n < 4 then 1 / 2 else 0" ?J] k(3) p4
    by (auto simp: start doubles)
  have names: "event_name (randomEvents ! 0) = ''Car Breakdown''"
      "event_name (randomEvents ! 2) = ''Tax Refund''" "event_name (randomEvents ! 4) = ''Bonus''"
    by (simp_all add: randomEvents_def)
  from all first third fifth names start(2) show ?thesis by blast
qed

subsection \<open>The calendar\<close>

lemma tryForRaise_returns:
  "job (player s) = Some j \<Longrightarrow> \<exists>v g' s'. tryForRaise g s = Inr (v, g', s')"
  by (simp add: tryForRaise_def Let_def split: prod.splits)

lemma tryForRaise_calendar:
  "tryForRaise g s = Inr (v, g', s') \<Longrightarrow> gameMonth s' = gameMonth s \<and> gameYear s' = gameYear s"
  by (auto simp: tryForRaise_def Let_def setters split: option.splits prod.splits if_splits)

lemma eventTriggered_calendar:
  "gameMonth (eventTriggered e s) = gameMonth s \<and> gameYear (eventTriggered e s) = gameYear s"
  by (simp add: eventTriggered_def Let_def setters)

lemma processRandomEvent_calendar:
  "gameMonth (snd (processRandomEvent g s)) = gameMonth s \<and>
   gameYear (snd (processRandomEvent g s)) = gameYear s"
  using eventLoop_cases [of randomEvents g s]
  by (auto simp: processRandomEvent_def eventTriggered_calendar)

lemma creditIncome_returns:
  "\<exists>g1 s1. creditIncome g s = Inr (g1, s1) \<and>
     gameMonth s1 = gameMonth s \<and> gameYear s1 = gameYear s"
proof (cases "job (player s)")
  case None
  then show ?thesis by (simp add: creditIncome_def)
next
  case (Some j)
  let ?s2 = "set_job (j\<lparr>monthsWorked := increment (monthsWorked j)\<rparr>)
               (set_savings (js_add (savings (finance (player s))) (monthlyIncome s)) s)"
  have "job (player ?s2) = Some (j\<lparr>monthsWorked := increment (monthsWorked j)\<rparr>)"
    by (simp add: setters)
  from tryForRaise_returns [OF this, of g]
  obtain v g' s' where r: "tryForRaise g ?s2 = Inr (v, g', s')" by blast
  from tryForRaise_calendar [OF r]
  have "gameMonth s' = gameMonth s \<and> gameYear s' = gameYear s" by (simp add: setters)
  with Some r show ?thesis by (simp add: creditIncome_def Let_def)
qed

lemma processMonth_advance:
  assumes "1 \<le> gameMonth s" and "gameMonth s \<le> 12"
  shows "\<exists>r g' s'. processMonth g s = Inr (r, g', s') \<and>
           gameMonth s' = (if gameMonth s = 12 then 1 else gameMonth s + 1) \<and>
           gameYear s' = (if gameMonth s = 12 then increment (gameYear s) else gameYear s) \<and>
           result_month r = gameMonth s' \<and> result_year r = gameYear s'"
proof -
  obtain g1 s1 where i: "creditIncome g s = Inr (g1, s1)"
    and c1: "gameMonth s1 = gameMonth s" "gameYear s1 = gameYear s"
    using creditIncome_returns by blast
  let ?s2 = "set_savings (js_sub (savings (finance (player s1)))
                (calculateTotalMonthlyExpenses s1)) s1"
  obtain g2 s3 where e: "processRandomEvent g1 ?s2 = (g2, s3)"
    by (cases "processRandomEvent g1 ?s2")
  from processRandomEvent_calendar [of g1 ?s2] e c1
  have c3: "gameMonth s3 = gameMonth s" "gameYear s3 = gameYear s"
    by (simp_all add: setters)
  from assms have "increment (gameMonth s) = gameMonth s + 1"
    by (intro increment_small) simp_all
  with assms i e c3 show ?thesis
    by (simp add: processMonth_def Let_def setters)
qed

text \<open>
  Claim C5 says that in every engine whose month is between 1 and 12, and for any random
  draws, \<open>processMonth()\<close> moves the calendar on by one month, and that from month 12 the
  year increases by exactly 1. The year is a double, and \<open>gameYear++\<close> gives the double
  nearest to the year plus one: in month 12 of the year 9007199254740992, which is
  \<open>2 ^ 53\<close>, the call gives month 1 of the same year, and returns that year.
\<close>

theorem processMonth_keeps_year:
  "case processMonth (\<lambda>_. 1 / 2) (constructor\<lparr>gameMonth := 12, gameYear := 2 ^ 53\<rparr>) of
     Inl e \<Rightarrow> False
   | Inr (r, g', s') \<Rightarrow>
       gameMonth s' = 1 \<and> gameYear s' = 2 ^ 53 \<and> result_month r = 1 \<and> result_year r = 2 ^ 53"
proof -
  have "increment (2 ^ 53) = 2 ^ 53"
    by (simp add: increment_def doubles)
  with processMonth_advance [of "constructor\<lparr>gameMonth := 12, gameYear := 2 ^ 53\<rparr>" "\<lambda>_. 1 / 2"]
  show ?thesis by auto
qed

text \<open>
  Claim C5 as amended: in an engine whose month is between 1 and 12 and whose year is of
  magnitude below \<open>2 ^ 53\<close>, and for any random draws, \<open>processMonth()\<close> returns, and it
  moves the calendar on by one month: the month becomes the old month plus one, or 1 with
  the year increased by one when the old month was 12; the month and the year it returns
  are the new ones, and the new month is between 1 and 12.
\<close>

theorem processMonth_calendar:
  assumes "1 \<le> gameMonth s" and "gameMonth s \<le> 12" and "\<bar>gameYear s\<bar> < 2 ^ 53"
  shows "\<exists>r g' s'. processMonth g s = Inr (r, g', s') \<and>
           gameMonth s' = (if gameMonth s = 12 then 1 else gameMonth s + 1) \<and>
           gameYear s' = (if gameMonth s = 12 then gameYear s + 1 else gameYear s) \<and>
           result_month r = gameMonth s' \<and> result_year r = gameYear s' \<and>
           1 \<le> gameMonth s' \<and> gameMonth s' \<le> 12"
proof -
  from assms(3) have "increment (gameYear s) = gameYear s + 1"
    by (intro increment_small) simp_all
  with processMonth_advance [OF assms(1,2), of g] assms(1,2) show ?thesis
    by auto
qed

text \<open>A fresh engine goes from month 1 to month 2; in month 12 of year 1 it goes to month 1 of year 2.\<close>

theorem processMonth_calendar_witness:
  "(\<exists>r g' s'. processMonth (\<lambda>_. 1 / 2) constructor = Inr (r, g', s') \<and>
       gameMonth s' = 2 \<and> gameYear s' = 1 \<and> result_month r = 2 \<and> result_year r = 1) \<and>
   (\<exists>r g' s'. processMonth (\<lambda>_. 1 / 2) (constructor\<lparr>gameMonth := 12\<rparr>) = Inr (r, g', s') \<and>
       gameMonth s' = 1 \<and> gameYear s' = 2 \<and> result_month r = 1 \<and> result_year r = 2)"
proof -
  have m: "gameMonth constructor = 1" "gameYear constructor = 1"
    by (simp_all add: constructor_def)
  have "\<exists>r g' s'. processMonth (\<lambda>_. 1 / 2) constructor = Inr (r, g', s') \<and>
       gameMonth s' = 2 \<and> gameYear s' = 1 \<and> result_month r = 2 \<and> result_year r = 1"
    using processMonth_calendar [of constructor "\<lambda>_. 1 / 2"] by (fastforce simp: m)
  moreover
  have "\<exists>r g' s'. processMonth (\<lambda>_. 1 / 2) (constructor\<lparr>gameMonth := 12\<rparr>) = Inr (r, g', s') \<and>
       gameMonth s' = 1 \<and> gameYear s' = 2 \<and> result_month r = 1 \<and> result_year r = 2"
    using processMonth_calendar [of "constructor\<lparr>gameMonth := 12\<rparr>" "\<lambda>_. 1 / 2"]
    by (fastforce simp: m)
  ultimately show ?thesis by blast
qed

subsection \<open>Improving a skill\<close>




subsection \<open>The salary in the big city\<close>

text \<open>
  Claim C7: when every random draw is 0, \<open>calculateSalary(30000)\<close> in an engine whose
  location is Big City, whose education level is 1 and whose experience level is 0 returns
  \<open>round(30000 * 1.3 * (1 + 1 * 0.05 + 0 * 0.03) * 0.9)\<close>, which is
  \<open>round(30000 * 1.3 * 1.05 * 0.9)\<close>, that is 36855.
\<close>

theorem calculateSalary_Big_City:
  assumes "location (player s) = Some ''Big City''"
    and "get_num (skills (player s)) ''education'' = Num 1"
    and "get_num (skills (player s)) ''experience'' = Num 0"
  shows "calculateSalary 30000 (\<lambda>_. 0) s =
           Inr (Math_round (Num (30000 * 1.3 * (1 + 1 * 0.05 + 0 * 0.03) * 0.9)), \<lambda>_. 0) \<and>
         Math_round (Num (30000 * 1.3 * (1 + 1 * 0.05 + 0 * 0.03) * 0.9)) =
           Math_round (Num (30000 * 1.3 * 1.05 * 0.9)) \<and>
         Math_round (Num (30000 * 1.3 * 1.05 * 0.9)) = Num 36855"
  using assms
  by (simp add: calculateSalary_def locationEntry_def get_property_def locations_def
      Math_random_def doubles)

text \<open>The engine after \<open>setLocation("Big City")\<close> on a fresh engine is such an engine.\<close>

theorem calculateSalary_Big_City_witness:
  "case setLocation ''Big City'' constructor of
     Inl e \<Rightarrow> False
   | Inr (ok, s) \<Rightarrow>
       location (player s) = Some ''Big City'' \<and>
       get_num (skills (player s)) ''education'' = Num 1 \<and>
       get_num (skills (player s)) ''experience'' = Num 0 \<and>
       calculateSalary 30000 (\<lambda>_. 0) s = Inr (Num 36855, \<lambda>_. 0)"
proof -
  let ?s = "snd (projr (setLocation ''Big City'' constructor))"
  have h: "location (player ?s) = Some ''Big City''"
      "get_num (skills (player ?s)) ''education'' = Num 1"
      "get_num (skills (player ?s)) ''experience'' = Num 0"
    unfolding setLocation_Big_City by (simp_all add: constructor_def get_num_def)
  from calculateSalary_Big_City [OF h]
  have "calculateSalary 30000 (\<lambda>_. 0) ?s = Inr (Num 36855, \<lambda>_. 0)"
    by simp
  with h show ?thesis by (simp add: setLocation_Big_City)
qed

subsection \<open>Calls that need a location or a job\<close>

lemma locationEntry_null: "location (player s) = None \<Longrightarrow> locationEntry s = Absent"
  by (simp add: locationEntry_def get_property_def locations_def Object_prototype_def)

lemma read_field_returns: "e \<noteq> Absent \<Longrightarrow> \<exists>v. read_field f e = Inr v"
  by (cases e) simp_all

lemma calculateSalary_throws:
  "locationEntry s = Absent \<Longrightarrow> calculateSalary b g s = Inl TypeError"
  by (simp add: calculateSalary_def)

lemma calculateSalary_returns:
  "locationEntry s \<noteq> Absent \<Longrightarrow> \<exists>v. calculateSalary b g s = Inr (v, \<lambda>n. g (Suc n))"
  by (cases "locationEntry s") (simp_all add: calculateSalary_def Math_random_def Let_def)

lemma getAvailableJobs_throws:
  "locationEntry s = Absent \<Longrightarrow> getAvailableJobs g s = Inl TypeError"
  by (simp add: getAvailableJobs_def)

lemma jobLoop_returns:
  "locationEntry s \<noteq> Absent \<Longrightarrow> \<exists>r. jobLoop js f acc g s = Inr r"
proof (induction js arbitrary: acc g)
  case Nil
  then show ?case by simp
next
  case (Cons p js)
  obtain jobTitle jobDetails where p: "p = (jobTitle, jobDetails)" by (cases p)
  from calculateSalary_returns [OF Cons.prems]
  obtain v where "calculateSalary (baseSalary jobDetails) (\<lambda>n. g (Suc n)) s =
      Inr (v, \<lambda>n. g (Suc (Suc n)))" by blast
  with Cons.IH [OF Cons.prems] show ?case
    by (simp add: p Let_def Math_random_def)
qed

lemma getAvailableJobs_returns:
  assumes "locationEntry s \<noteq> Absent"
  shows "\<exists>r. getAvailableJobs g s = Inr r"
proof -
  from read_field_returns [OF assms]
  obtain f where f: "read_field jobOpportunities (locationEntry s) = Inr f" by blast
  from jobLoop_returns [OF assms]
  obtain r where "jobLoop jobTypes f [] g s = Inr r" by blast
  with f show ?thesis by (cases r) (simp add: getAvailableJobs_def)
qed

lemma find_job:
  assumes "jobTitle \<in> set (map fst jobTypes)"
  shows "\<exists>details. find (\<lambda>(title', _). title' = jobTitle) jobTypes = Some (jobTitle, details)"
proof -
  from assms have "find (\<lambda>(title', _). title' = jobTitle) jobTypes \<noteq> None"
    by (auto simp: find_None_iff)
  then obtain x where x: "find (\<lambda>(title', _). title' = jobTitle) jobTypes = Some x" by blast
  then have "fst x = jobTitle" by (auto simp: find_Some_iff)
  with x show ?thesis by (cases x) simp
qed

lemma acceptJob_throws:
  assumes "locationEntry s = Absent" and "jobTitle \<in> set (map fst jobTypes)"
  shows "acceptJob jobTitle g s = Inl TypeError"
proof -
  from find_job [OF assms(2)] obtain details
    where "find (\<lambda>(title', _). title' = jobTitle) jobTypes = Some (jobTitle, details)" by blast
  then show ?thesis
    by (simp add: acceptJob_def calculateSalary_throws [OF assms(1)])
qed

lemma acceptJob_returns:
  assumes "locationEntry s \<noteq> Absent"
  shows "\<exists>r. acceptJob jobTitle g s = Inr r"
proof (cases "find (\<lambda>(title', _). title' = jobTitle) jobTypes")
  case None
  then have "acceptJob jobTitle g s = Inr (False, g, s)" by (simp add: acceptJob_def)
  then show ?thesis by blast
next
  case (Some x)
  obtain t d where x: "x = (t, d)" by (cases x)
  from calculateSalary_returns [OF assms]
  obtain v where "calculateSalary (baseSalary d) g s = Inr (v, \<lambda>n. g (Suc n))" by blast
  with Some x show ?thesis by (auto simp: acceptJob_def Let_def)
qed

lemma tryForRaise_throws: "job (player s) = None \<Longrightarrow> tryForRaise g s = Inl TypeError"
  by (simp add: tryForRaise_def)

lemma locationEntry_set:
  "location (player s) = Some n \<Longrightarrow> locationEntry s = get_property locations n"
  by (simp add: locationEntry_def)

text \<open>
  Claim C10: in an engine whose location is \<open>null\<close>, \<open>getAvailableJobs()\<close>,
  \<open>calculateSalary(b)\<close> and \<open>acceptJob\<close> with a title of the catalog throw a
  \<open>TypeError\<close>, and in an engine without a job \<open>tryForRaise()\<close> throws a
  \<open>TypeError\<close>. Once the location is a name that \<open>this.locations[name]\<close> finds, the
  first three return, and once there is a job \<open>tryForRaise()\<close> returns.
\<close>

theorem throws_without_location_or_job:
  "(location (player s) = None \<longrightarrow>
      getAvailableJobs g s = Inl TypeError \<and>
      calculateSalary b g s = Inl TypeError \<and>
      (jobTitle \<in> set (map fst jobTypes) \<longrightarrow> acceptJob jobTitle g s = Inl TypeError)) \<and>
   (job (player s) = None \<longrightarrow> tryForRaise g s = Inl TypeError) \<and>
   (location (player s) = Some n \<and> get_property locations n \<noteq> Absent \<longrightarrow>
      (\<exists>r. getAvailableJobs g s = Inr r) \<and>
      (\<exists>r. calculateSalary b g s = Inr r) \<and>
      (\<exists>r. acceptJob jobTitle g s = Inr r)) \<and>
   (job (player s) = Some j \<longrightarrow> (\<exists>r. tryForRaise g s = Inr r))"
proof -
  have "location (player s) = None \<longrightarrow>
      getAvailableJobs g s = Inl TypeError \<and>
      calculateSalary b g s = Inl TypeError \<and>
      (jobTitle \<in> set (map fst jobTypes) \<longrightarrow> acceptJob jobTitle g s = Inl TypeError)"
    using locationEntry_null [of s]
    by (simp add: getAvailableJobs_throws calculateSalary_throws acceptJob_throws)
  moreover
  have "job (player s) = None \<longrightarrow> tryForRaise g s = Inl TypeError"
    by (simp add: tryForRaise_throws)
  moreover
  have "location (player s) = Some n \<and> get_property locations n \<noteq> Absent \<longrightarrow>
      (\<exists>r. getAvailableJobs g s = Inr r) \<and>
      (\<exists>r. calculateSalary b g s = Inr r) \<and>
      (\<exists>r. acceptJob jobTitle g s = Inr r)"
  proof
    assume "location (player s) = Some n \<and> get_property locations n \<noteq> Absent"
    then have e: "locationEntry s \<noteq> Absent" by (simp add: locationEntry_set)
    from calculateSalary_returns [OF e, of b g]
    have "\<exists>r. calculateSalary b g s = Inr r" by blast
    with getAvailableJobs_returns [OF e, of g] acceptJob_returns [OF e, of jobTitle g]
    show "(\<exists>r. getAvailableJobs g s = Inr r) \<and>
      (\<exists>r. calculateSalary b g s = Inr r) \<and>
      (\<exists>r. acceptJob jobTitle g s = Inr r)" by blast
  qed
  moreover
  have "job (player s) = Some j \<longrightarrow> (\<exists>r. tryForRaise g s = Inr r)"
    using tryForRaise_returns [of s j g] by blast
  ultimately show ?thesis by blast
qed

text \<open>
  A fresh engine has neither location nor job. The same engine with the location Suburb,
  or with a job, does not throw.
\<close>

theorem throws_without_location_or_job_witness:
  "getAvailableJobs (\<lambda>_. 0) constructor = Inl TypeError \<and>
   calculateSalary 30000 (\<lambda>_. 0) constructor = Inl TypeError \<and>
   acceptJob ''Retail'' (\<lambda>_. 0) constructor = Inl TypeError \<and>
   tryForRaise (\<lambda>_. 0) constructor = Inl TypeError \<and>
   (\<exists>r. getAvailableJobs (\<lambda>_. 0) (set_location ''Suburb'' constructor) = Inr r) \<and>
   (\<exists>r. calculateSalary 30000 (\<lambda>_. 0) (set_location ''Suburb'' constructor) = Inr r) \<and>
   (\<exists>r. acceptJob ''Retail'' (\<lambda>_. 0) (set_location ''Suburb'' constructor) = Inr r) \<and>
   (\<exists>r. tryForRaise (\<lambda>_. 0)
      (set_job \<lparr>title = ''Retail'', job_salary = Num 25000, monthsWorked = 0\<rparr> constructor) = Inr r)"
proof -
  have a: "location (player constructor) = None" "job (player constructor) = None"
    by (simp_all add: constructor_def)
  have t: "''Retail'' \<in> set (map fst jobTypes)" by (simp add: jobTypes_def)
  have b: "location (player (set_location ''Suburb'' constructor)) = Some ''Suburb''"
    "get_property locations ''Suburb'' \<noteq> Absent"
    by (simp_all add: set_location_def get_property_def locations_def)
  have c: "job (player (set_job \<lparr>title = ''Retail'', job_salary = Num 25000, monthsWorked = 0\<rparr>
      constructor)) = Some \<lparr>title = ''Retail'', job_salary = Num 25000, monthsWorked = 0\<rparr>"
    by (simp add: set_job_def)
  from throws_without_location_or_job [of constructor "\<lambda>_. 0" 30000 "''Retail''"] a t
  have 1: "getAvailableJobs (\<lambda>_. 0) constructor = Inl TypeError \<and>
   calculateSalary 30000 (\<lambda>_. 0) constructor = Inl TypeError \<and>
   acceptJob ''Retail'' (\<lambda>_. 0) constructor = Inl TypeError \<and>
   tryForRaise (\<lambda>_. 0) constructor = Inl TypeError" by blast
  from throws_without_location_or_job [of "set_location ''Suburb'' constructor" "\<lambda>_. 0" 30000
      "''Retail''" "''Suburb''"] b
  have 2: "(\<exists>r. getAvailableJobs (\<lambda>_. 0) (set_location ''Suburb'' constructor) = Inr r) \<and>
   (\<exists>r. calculateSalary 30000 (\<lambda>_. 0) (set_location ''Suburb'' constructor) = Inr r) \<and>
   (\<exists>r. acceptJob ''Retail'' (\<lambda>_. 0) (set_location ''Suburb'' constructor) = Inr r)" by blast
  from throws_without_location_or_job
      [of "set_job \<lparr>title = ''Retail'', job_salary = Num 25000, monthsWorked = 0\<rparr> constructor"
        "\<lambda>_. 0" 30000 "''Retail''" "''Suburb''"
        "\<lparr>title = ''Retail'', job_salary = Num 25000, monthsWorked = 0\<rparr>"] c
  have 3: "\<exists>r. tryForRaise (\<lambda>_. 0)
      (set_job \<lparr>title = ''Retail'', job_salary = Num 25000, monthsWorked = 0\<rparr> constructor) = Inr r"
    by blast
  from 1 2 3 show ?thesis by blast
qed

subsection \<open>Invariants of the engines that calls produce\<close>



























end
